theory Spec2Isabelle
  imports Complex_Main
begin

section \<open>Data model\<close>

text \<open>
  The program (\<^verbatim>\<open>src/main.py\<close>) walks a path, reads the metadata of every file it
  finds and classifies each file as dormant or not. Everything the program learns about
  the outside world comes from library calls (\<^verbatim>\<open>time.time\<close>, \<^verbatim>\<open>os.path.isfile\<close>,
  \<^verbatim>\<open>os.walk\<close>, \<^verbatim>\<open>os.stat\<close>, \<^verbatim>\<open>open\<close>, ...). The model takes the answers of these calls
  from an environment record and returns, besides the value of each function, the list
  of effects (library calls and log records) the function performs, in program order.

  Timestamps are Python floats. They are modelled as rationals: comparisons between
  floats are exact, and the one subtraction of the program (line 85) is taken without
  rounding, its integer operand \<^verbatim>\<open>days * 24 * 60 * 60\<close> being taken to fit a float.
  The matcher of \<^verbatim>\<open>pathspec\<close>, \<^verbatim>\<open>stat.filemode\<close> and \<^verbatim>\<open>time.ctime\<close> are library
  functions and are parameters of the environment as well.
\<close>

datatype oserror = FileNotFoundError | PermissionError | OtherOSError

datatype exn = OSError oserror | KeyError string | TypeError | OtherException

datatype pyval = PyStr string | PyFloat rat | PyBool bool

type_synonym dict = "(string \<times> pyval) list"

type_synonym matcher = "string \<Rightarrow> bool"

record stat_result =
  st_mode :: nat
  st_atime :: rat
  st_mtime :: rat

datatype level = INFO | WARNING | ERROR

datatype message =
    FileStatsError string oserror
  | AnalyzingError string oserror
  | NotValidPath string
  | ExcludeNotFound string
  | ExcludeLoadError string exn
  | ReportSaved string
  | ReportWriteError exn
  | PathDoesNotExist string
  | DaysNotPositive
  | UnexpectedError exn

datatype event =
    EvTime
  | EvExists string
  | EvIsFile string
  | EvIsDir string
  | EvListDir string
  | EvStat string
  | EvOpenRead string
  | EvOpenWrite string
  | EvWrite string string
  | EvPrint "pyval list list"
  | EvLog level message

record env =
  now :: rat
  path_exists :: "string \<Rightarrow> bool"
  isfile :: "string \<Rightarrow> bool"
  isdir :: "string \<Rightarrow> bool"
  walk :: "string \<Rightarrow> (string \<times> string list \<times> string list) list"
  os_stat :: "string \<Rightarrow> oserror + stat_result"
  filemode :: "nat \<Rightarrow> string"
  read_lines :: "string \<Rightarrow> exn + string list"
  new_PathSpec :: "string list \<Rightarrow> exn + matcher"
  open_write :: "string \<Rightarrow> exn option"
  ctime :: "rat \<Rightarrow> string"
  float_str :: "rat \<Rightarrow> string"

section \<open>The exclusion test\<close>

text \<open>
  \<^verbatim>\<open>is_excluded\<close> (lines 55-68): an absent matcher excludes nothing, otherwise the
  answer is the matcher's \<^verbatim>\<open>match_file\<close>.
\<close>

definition is_excluded :: "string \<Rightarrow> matcher option \<Rightarrow> bool" where
  "is_excluded path exclude_patterns =
     (case exclude_patterns of None \<Rightarrow> False | Some spec \<Rightarrow> spec path)"

section \<open>Inspection of one file\<close>

text \<open>
  \<^verbatim>\<open>analyze_file\<close> (lines 106-135). The body of the \<^verbatim>\<open>try\<close> is
  \<open>analyze_file_body\<close>; the only statement of it that can raise is \<^verbatim>\<open>os.stat\<close>.
  The handler \<^verbatim>\<open>except OSError\<close> catches exceptions of that class only.
\<close>

definition analyze_file_body :: "env \<Rightarrow> string \<Rightarrow> rat \<Rightarrow> exn + dict" where
  "analyze_file_body e file_path cutoff_timestamp =
     (case os_stat e file_path of
        Inl err \<Rightarrow> Inl (OSError err)
      | Inr stat_info \<Rightarrow>
          (let last_access_time = st_atime stat_info;
               last_modified_time = st_mtime stat_info;
               permissions = filemode e (st_mode stat_info);
               is_dormant = (last_access_time < cutoff_timestamp
                             \<and> last_modified_time < cutoff_timestamp)
           in Inr [(''file_path'', PyStr file_path),
                   (''permissions'', PyStr permissions),
                   (''last_access_time'', PyFloat last_access_time),
                   (''last_modified_time'', PyFloat last_modified_time),
                   (''is_dormant'', PyBool is_dormant)]))"

definition analyze_file :: "env \<Rightarrow> string \<Rightarrow> rat \<Rightarrow> event list \<times> (exn + dict)" where
  "analyze_file e file_path cutoff_timestamp =
     (case analyze_file_body e file_path cutoff_timestamp of
        Inr result \<Rightarrow> ([EvStat file_path], Inr result)
      | Inl (OSError err) \<Rightarrow>
          ([EvStat file_path, EvLog ERROR (FileStatsError file_path err)], Inr [])
      | Inl other \<Rightarrow> ([EvStat file_path], Inl other))"

section \<open>The traversal\<close>

text \<open>
  \<^verbatim>\<open>os.path.join\<close> for two components, as \<^verbatim>\<open>posixpath\<close> defines it.
\<close>

definition join :: "string \<Rightarrow> string \<Rightarrow> string" where
  "join a b =
     (if b \<noteq> [] \<and> hd b = CHR ''/'' then b
      else if a = [] \<or> last a = CHR ''/'' then a @ b
      else a @ ''/'' @ b)"

text \<open>
  The inner loop of \<^verbatim>\<open>analyze_permissions\<close> (lines 93-99) over the file names of one
  directory, with the result list built so far. An \<^verbatim>\<open>OSError\<close> raised by
  \<^verbatim>\<open>analyze_file\<close> is logged and the loop goes on; any other exception leaves the loop.
\<close>

fun analyze_files ::
  "env \<Rightarrow> matcher option \<Rightarrow> rat \<Rightarrow> string \<Rightarrow> string list \<Rightarrow> dict list
    \<Rightarrow> event list \<times> (exn + dict list)" where
  "analyze_files e exclude_patterns cutoff root_dir [] results = ([], Inr results)"
| "analyze_files e exclude_patterns cutoff root_dir (file # files) results =
     (let full_path = join root_dir file in
      if \<not> is_excluded full_path exclude_patterns then
        (case analyze_file e full_path cutoff of
           (ev, Inr result) \<Rightarrow>
             (case analyze_files e exclude_patterns cutoff root_dir files (results @ [result]) of
                (ev', r) \<Rightarrow> (ev @ ev', r))
         | (ev, Inl (OSError err)) \<Rightarrow>
             (case analyze_files e exclude_patterns cutoff root_dir files results of
                (ev', r) \<Rightarrow> (ev @ [EvLog ERROR (AnalyzingError full_path err)] @ ev', r))
         | (ev, Inl other) \<Rightarrow> (ev, Inl other))
      else analyze_files e exclude_patterns cutoff root_dir files results)"

text \<open>
  The outer loop (line 92) over the triples \<^verbatim>\<open>(root, dirs, files)\<close> that \<^verbatim>\<open>os.walk\<close>
  yields. The generator lists a directory just before it yields its triple.
\<close>

fun walk_loop ::
  "env \<Rightarrow> matcher option \<Rightarrow> rat \<Rightarrow> (string \<times> string list \<times> string list) list \<Rightarrow> dict list
    \<Rightarrow> event list \<times> (exn + dict list)" where
  "walk_loop e exclude_patterns cutoff [] results = ([], Inr results)"
| "walk_loop e exclude_patterns cutoff ((root_dir, dirs, files) # rest) results =
     (case analyze_files e exclude_patterns cutoff root_dir files results of
        (ev, Inl err) \<Rightarrow> (EvListDir root_dir # ev, Inl err)
      | (ev, Inr results') \<Rightarrow>
          (case walk_loop e exclude_patterns cutoff rest results' of
             (ev', r) \<Rightarrow> (EvListDir root_dir # ev @ ev', r)))"

text \<open>\<^verbatim>\<open>analyze_permissions\<close> (lines 70-103).\<close>

definition analyze_permissions ::
  "env \<Rightarrow> string \<Rightarrow> int \<Rightarrow> matcher option \<Rightarrow> event list \<times> (exn + dict list)" where
  "analyze_permissions e path days exclude_patterns =
     (let results = [];
          cutoff_timestamp = now e - of_int (days * 24 * 60 * 60)
      in if isfile e path then
           (if \<not> is_excluded path exclude_patterns then
              (case analyze_file e path cutoff_timestamp of
                 (ev, Inl err) \<Rightarrow> ([EvTime, EvIsFile path] @ ev, Inl err)
               | (ev, Inr result) \<Rightarrow> ([EvTime, EvIsFile path] @ ev, Inr (results @ [result])))
            else ([EvTime, EvIsFile path], Inr results))
         else if isdir e path then
           (case walk_loop e exclude_patterns cutoff_timestamp (walk e path) results of
              (ev, r) \<Rightarrow> ([EvTime, EvIsFile path, EvIsDir path] @ ev, r))
         else
           ([EvTime, EvIsFile path, EvIsDir path, EvLog ERROR (NotValidPath path)],
            Inr results))"

section \<open>Loading the exclusion patterns\<close>

text \<open>
  \<^verbatim>\<open>load_exclude_patterns\<close> (lines 137-156). Reading the file and building the
  \<^verbatim>\<open>PathSpec\<close> are both inside the \<^verbatim>\<open>try\<close>; \<^verbatim>\<open>FileNotFoundError\<close> is handled first,
  every other exception by the second handler.
\<close>

definition load_exclude_patterns :: "env \<Rightarrow> string \<Rightarrow> event list \<times> matcher option" where
  "load_exclude_patterns e exclude_file =
     (case (case read_lines e exclude_file of
              Inl err \<Rightarrow> Inl err
            | Inr lines \<Rightarrow> new_PathSpec e lines) of
        Inr spec \<Rightarrow> ([EvOpenRead exclude_file], Some spec)
      | Inl (OSError FileNotFoundError) \<Rightarrow>
          ([EvOpenRead exclude_file, EvLog WARNING (ExcludeNotFound exclude_file)], None)
      | Inl err \<Rightarrow>
          ([EvOpenRead exclude_file, EvLog ERROR (ExcludeLoadError exclude_file err)], None))"

section \<open>Rendering\<close>

definition getitem :: "dict \<Rightarrow> string \<Rightarrow> exn + pyval" where
  "getitem d k = (case map_of d k of None \<Rightarrow> Inl (KeyError k) | Some v \<Rightarrow> Inr v)"

definition py_str :: "env \<Rightarrow> pyval \<Rightarrow> string" where
  "py_str e v =
     (case v of PyStr s \<Rightarrow> s
              | PyFloat x \<Rightarrow> float_str e x
              | PyBool b \<Rightarrow> (if b then ''True'' else ''False''))"

definition py_ctime :: "env \<Rightarrow> pyval \<Rightarrow> exn + string" where
  "py_ctime e v =
     (case v of PyStr s \<Rightarrow> Inl TypeError
              | PyFloat x \<Rightarrow> Inr (ctime e x)
              | PyBool b \<Rightarrow> Inr (ctime e (if b then 1 else 0)))"

definition bind_exn :: "exn + 'a \<Rightarrow> ('a \<Rightarrow> exn + 'b) \<Rightarrow> exn + 'b" where
  "bind_exn m f = (case m of Inl err \<Rightarrow> Inl err | Inr x \<Rightarrow> f x)"

definition and_then ::
  "event list \<times> (exn + 'a) \<Rightarrow> ('a \<Rightarrow> event list \<times> (exn + 'b)) \<Rightarrow> event list \<times> (exn + 'b)" where
  "and_then m f =
     (case m of
        (ev, Inl err) \<Rightarrow> (ev, Inl err)
      | (ev, Inr x) \<Rightarrow> (case f x of (ev', r) \<Rightarrow> (ev @ ev', r)))"

text \<open>One \<^verbatim>\<open>f.write\<close> of a formatted line; the argument is evaluated first.\<close>

definition write_line :: "string \<Rightarrow> string \<Rightarrow> exn + string \<Rightarrow> event list \<times> (exn + unit)" where
  "write_line out label arg =
     (case arg of
        Inl err \<Rightarrow> ([], Inl err)
      | Inr s \<Rightarrow> ([EvWrite out (label @ s @ [CHR 0x0A])], Inr ()))"

text \<open>The body of the loop of \<^verbatim>\<open>generate_report\<close> (lines 172-177).\<close>

definition write_result :: "env \<Rightarrow> string \<Rightarrow> dict \<Rightarrow> event list \<times> (exn + unit)" where
  "write_result e out result =
     and_then (write_line out ''File: ''
                 (bind_exn (getitem result ''file_path'') (\<lambda>v. Inr (py_str e v)))) (\<lambda>_.
     and_then (write_line out ''  Permissions: ''
                 (bind_exn (getitem result ''permissions'') (\<lambda>v. Inr (py_str e v)))) (\<lambda>_.
     and_then (write_line out ''  Last Access Time: ''
                 (bind_exn (getitem result ''last_access_time'') (py_ctime e))) (\<lambda>_.
     and_then (write_line out ''  Last Modified Time: ''
                 (bind_exn (getitem result ''last_modified_time'') (py_ctime e))) (\<lambda>_.
     and_then (write_line out ''  Is Dormant: ''
                 (bind_exn (getitem result ''is_dormant'') (\<lambda>v. Inr (py_str e v)))) (\<lambda>_.
     ([EvWrite out [CHR 0x0A]], Inr ()))))))"

fun write_results :: "env \<Rightarrow> string \<Rightarrow> dict list \<Rightarrow> event list \<times> (exn + unit)" where
  "write_results e out [] = ([], Inr ())"
| "write_results e out (result # results) =
     and_then (write_result e out result) (\<lambda>_. write_results e out results)"

text \<open>
  \<^verbatim>\<open>generate_report\<close> (lines 158-181): every exception of the body is caught and logged.
\<close>

definition generate_report :: "env \<Rightarrow> dict list \<Rightarrow> string \<Rightarrow> event list" where
  "generate_report e results output_file =
     (case open_write e output_file of
        Some err \<Rightarrow> [EvOpenWrite output_file, EvLog ERROR (ReportWriteError err)]
      | None \<Rightarrow>
          (case and_then (write_line output_file ''Permission Analysis Report'' (Inr [])) (\<lambda>_.
                and_then (write_line output_file ''---------------------------'' (Inr [])) (\<lambda>_.
                write_results e output_file results)) of
             (ev, Inr _) \<Rightarrow> EvOpenWrite output_file # ev @ [EvLog INFO (ReportSaved output_file)]
           | (ev, Inl err) \<Rightarrow> EvOpenWrite output_file # ev @ [EvLog ERROR (ReportWriteError err)]))"

text \<open>
  \<^verbatim>\<open>generate_rich_table\<close> (lines 183-208): the rows of the table, or the exception of
  the first row that cannot be built.
\<close>

definition table_row :: "env \<Rightarrow> dict \<Rightarrow> exn + pyval list" where
  "table_row e result =
     bind_exn (getitem result ''file_path'') (\<lambda>c1.
     bind_exn (getitem result ''permissions'') (\<lambda>c2.
     bind_exn (bind_exn (getitem result ''last_access_time'') (py_ctime e)) (\<lambda>c3.
     bind_exn (bind_exn (getitem result ''last_modified_time'') (py_ctime e)) (\<lambda>c4.
     bind_exn (getitem result ''is_dormant'') (\<lambda>c5.
     Inr [c1, c2, PyStr c3, PyStr c4, PyStr (py_str e c5)])))))"

fun generate_rich_table :: "env \<Rightarrow> dict list \<Rightarrow> exn + pyval list list" where
  "generate_rich_table e [] = Inr []"
| "generate_rich_table e (result # results) =
     bind_exn (table_row e result) (\<lambda>row.
     bind_exn (generate_rich_table e results) (\<lambda>rows. Inr (row # rows)))"

section \<open>The entry point\<close>

record args =
  arg_path :: string
  arg_days :: int
  arg_output :: string
  arg_exclude :: "string option"

text \<open>
  \<^verbatim>\<open>main\<close> (lines 211-241), from the parsed arguments on. \<^verbatim>\<open>if args.exclude\<close> is false
  for \<^verbatim>\<open>None\<close> and for the empty string.
\<close>

definition main :: "env \<Rightarrow> args \<Rightarrow> event list" where
  "main e a =
     (if \<not> path_exists e (arg_path a) then
        [EvExists (arg_path a), EvLog ERROR (PathDoesNotExist (arg_path a))]
      else if arg_days a \<le> 0 then
        [EvExists (arg_path a), EvLog ERROR DaysNotPositive]
      else
        (case (case arg_exclude a of
                 None \<Rightarrow> ([], None)
               | Some exclude_file \<Rightarrow>
                   (if exclude_file = [] then ([], None)
                    else load_exclude_patterns e exclude_file)) of
           (ev1, exclude_patterns) \<Rightarrow>
             (case analyze_permissions e (arg_path a) (arg_days a) exclude_patterns of
                (ev2, Inl err) \<Rightarrow>
                  EvExists (arg_path a) # ev1 @ ev2 @ [EvLog ERROR (UnexpectedError err)]
              | (ev2, Inr results) \<Rightarrow>
                  (let ev3 = generate_report e results (arg_output a) in
                   case generate_rich_table e results of
                     Inl err \<Rightarrow>
                       EvExists (arg_path a) # ev1 @ ev2 @ ev3
                         @ [EvLog ERROR (UnexpectedError err)]
                   | Inr table \<Rightarrow>
                       EvExists (arg_path a) # ev1 @ ev2 @ ev3 @ [EvPrint table]))))"

section \<open>Vocabulary of the properties\<close>

text \<open>
  What one call of \<^verbatim>\<open>analyze_file\<close> returns and what it does, in closed form: the record
  of the file, or the empty dictionary when the metadata cannot be read; one
  \<^verbatim>\<open>os.stat\<close>, followed by one error record when it fails.
\<close>

definition file_result :: "env \<Rightarrow> rat \<Rightarrow> string \<Rightarrow> dict" where
  "file_result e cutoff p =
     (case analyze_file_body e p cutoff of Inr d \<Rightarrow> d | Inl _ \<Rightarrow> [])"

definition file_events :: "env \<Rightarrow> string \<Rightarrow> event list" where
  "file_events e p =
     EvStat p # (case os_stat e p of
                   Inl err \<Rightarrow> [EvLog ERROR (FileStatsError p err)]
                 | Inr _ \<Rightarrow> [])"

text \<open>The full paths of one directory that pass the exclusion test, in listing order.\<close>

definition kept_paths :: "matcher option \<Rightarrow> string \<Rightarrow> string list \<Rightarrow> string list" where
  "kept_paths x r fs = filter (\<lambda>p. \<not> is_excluded p x) (map (join r) fs)"

text \<open>
  The files reachable below a directory: every file name of every triple that
  \<^verbatim>\<open>os.walk\<close> yields, joined to the directory of its triple, in enumeration order.
\<close>

definition walk_paths :: "env \<Rightarrow> string \<Rightarrow> string list" where
  "walk_paths e path = concat (map (\<lambda>(r, ds, fs). map (join r) fs) (walk e path))"

fun walk_events ::
  "env \<Rightarrow> matcher option \<Rightarrow> (string \<times> string list \<times> string list) list \<Rightarrow> event list" where
  "walk_events e x [] = []"
| "walk_events e x ((r, ds, fs) # rest) =
     EvListDir r # concat (map (file_events e) (kept_paths x r fs)) @ walk_events e x rest"

text \<open>The paths of the \<^verbatim>\<open>os.stat\<close> calls of a run, in order.\<close>

fun stat_calls :: "event list \<Rightarrow> string list" where
  "stat_calls [] = []"
| "stat_calls (EvStat p # ev) = p # stat_calls ev"
| "stat_calls (_ # ev) = stat_calls ev"

text \<open>The effects that read the filesystem, and the number of clock reads.\<close>

fun is_fs_read :: "event \<Rightarrow> bool" where
  "is_fs_read (EvExists p) = True"
| "is_fs_read (EvIsFile p) = True"
| "is_fs_read (EvIsDir p) = True"
| "is_fs_read (EvListDir p) = True"
| "is_fs_read (EvStat p) = True"
| "is_fs_read (EvOpenRead p) = True"
| "is_fs_read _ = False"

definition fs_reads :: "event list \<Rightarrow> event list" where
  "fs_reads ev = filter is_fs_read ev"


section \<open>A concrete filesystem\<close>

text \<open>
  A small world on which the model is run: the directory \<^verbatim>\<open>ok\<close> holds the file
  \<^verbatim>\<open>a\<close> and the directory \<^verbatim>\<open>sub\<close> with the file \<^verbatim>\<open>b\<close>; the directory \<^verbatim>\<open>d\<close> holds
  the file \<^verbatim>\<open>a\<close> and the dangling link \<^verbatim>\<open>gone\<close>, which \<^verbatim>\<open>os.walk\<close> lists among the
  files and \<^verbatim>\<open>os.stat\<close> cannot read; \<^verbatim>\<open>f\<close> is a regular file; \<^verbatim>\<open>gone\<close> is a file
  that disappears between \<^verbatim>\<open>os.path.isfile\<close> and \<^verbatim>\<open>os.stat\<close>; \<^verbatim>\<open>fifo\<close> exists and
  is neither a regular file nor a directory. The clock stands at 1700000000, so that a
  window of 365 days puts the cutoff at 1668464000.
\<close>

definition demo_env :: env where
  "demo_env = \<lparr>
     now = 1700000000,
     path_exists = (\<lambda>p. p = ''ok'' \<or> p = ''d'' \<or> p = ''f'' \<or> p = ''fifo''),
     isfile = (\<lambda>p. p = ''f'' \<or> p = ''gone''),
     isdir = (\<lambda>p. p = ''ok'' \<or> p = ''d''),
     walk = (\<lambda>p. if p = ''ok'' then [(''ok'', [''sub''], [''a'']), (''ok/sub'', [], [''b''])]
                  else if p = ''d'' then [(''d'', [], [''a'', ''gone''])]
                  else []),
     os_stat = (\<lambda>p. if p = ''ok/a'' \<or> p = ''d/a'' \<or> p = ''f''
                       then Inr \<lparr>st_mode = 33188, st_atime = 1600000000, st_mtime = 1500000000\<rparr>
                     else if p = ''ok/sub/b''
                       then Inr \<lparr>st_mode = 33188, st_atime = 1699999000, st_mtime = 1500000000\<rparr>
                     else Inl FileNotFoundError),
     filemode = (\<lambda>m. if m = 33188 then ''-rw-r--r--'' else ''?---------''),
     read_lines = (\<lambda>p. if p = ''ex'' then Inr [''ok/a''] else Inl (OSError FileNotFoundError)),
     new_PathSpec = (\<lambda>lines. Inr (\<lambda>p. p \<in> set lines)),
     open_write = (\<lambda>p. None),
     ctime = (\<lambda>t. ''<time>''),
     float_str = (\<lambda>t. ''<float>'')
   \<rparr>"

definition demo_args :: "string \<Rightarrow> int \<Rightarrow> string option \<Rightarrow> args" where
  "demo_args p d x =
     \<lparr>arg_path = p, arg_days = d, arg_output = ''report.txt'', arg_exclude = x\<rparr>"

section \<open>The loops in closed form\<close>

lemma analyze_file_closed: "analyze_file e p c = (file_events e p, Inr (file_result e c p))"
  by (simp add: analyze_file_def analyze_file_body_def file_result_def file_events_def Let_def
      split: sum.splits)

lemma analyze_files_closed:
  "analyze_files e x c r fs results =
     (concat (map (file_events e) (kept_paths x r fs)),
      Inr (results @ map (file_result e c) (kept_paths x r fs)))"
  by (induction fs arbitrary: results) (simp_all add: analyze_file_closed kept_paths_def Let_def)

lemma walk_loop_closed:
  "walk_loop e x c ts results =
     (walk_events e x ts,
      Inr (results @ concat (map (\<lambda>(r, ds, fs). map (file_result e c) (kept_paths x r fs)) ts)))"
  by (induction ts arbitrary: results) (auto simp: analyze_files_closed)

lemma analyze_permissions_closed:
  "analyze_permissions e path days x =
     (let c = now e - of_int (days * 24 * 60 * 60) in
      if isfile e path then
        (if is_excluded path x then ([EvTime, EvIsFile path], Inr [])
         else ([EvTime, EvIsFile path] @ file_events e path, Inr [file_result e c path]))
      else if isdir e path then
        ([EvTime, EvIsFile path, EvIsDir path] @ walk_events e x (walk e path),
         Inr (concat (map (\<lambda>(r, ds, fs). map (file_result e c) (kept_paths x r fs)) (walk e path))))
      else ([EvTime, EvIsFile path, EvIsDir path, EvLog ERROR (NotValidPath path)], Inr []))"
  by (simp add: analyze_permissions_def Let_def analyze_file_closed walk_loop_closed)

lemma file_result_path:
  "map_of (file_result e c q) ''file_path'' = Some v \<Longrightarrow> v = PyStr q"
  by (auto simp: file_result_def analyze_file_body_def Let_def split: sum.splits)

lemma file_result_ok:
  "os_stat e p = Inr st \<Longrightarrow> map_of (file_result e c p) ''file_path'' = Some (PyStr p)"
  by (simp add: file_result_def analyze_file_body_def Let_def)

lemma stat_calls_append: "stat_calls (xs @ ys) = stat_calls xs @ stat_calls ys"
  by (induction xs rule: stat_calls.induct) simp_all

lemma stat_calls_file_events: "stat_calls (file_events e p) = [p]"
  by (simp add: file_events_def split: sum.splits)

lemma stat_calls_concat_file_events:
  "stat_calls (concat (map (file_events e) ps)) = ps"
  by (induction ps) (simp_all add: stat_calls_append stat_calls_file_events)

lemma stat_calls_walk_events:
  "stat_calls (walk_events e x ts) = concat (map (\<lambda>(r, ds, fs). kept_paths x r fs) ts)"
  by (induction ts) (auto simp: stat_calls_append stat_calls_concat_file_events)

lemma in_stat_calls: "EvStat p \<in> set ev \<longleftrightarrow> p \<in> set (stat_calls ev)"
  by (induction ev rule: stat_calls.induct) auto

lemma kept_paths_not_excluded: "p \<in> set (kept_paths x r fs) \<Longrightarrow> \<not> is_excluded p x"
  by (simp add: kept_paths_def)

lemma concat_kept_all:
  assumes "\<forall>p \<in> set (concat (map (\<lambda>(r, ds, fs). map (join r) fs) ts)). \<not> is_excluded p x"
  shows "concat (map (\<lambda>(r, ds, fs). map f (kept_paths x r fs)) ts)
           = map f (concat (map (\<lambda>(r, ds, fs). map (join r) fs) ts))"
    and "concat (map (\<lambda>(r, ds, fs). kept_paths x r fs) ts)
           = concat (map (\<lambda>(r, ds, fs). map (join r) fs) ts)"
  using assms by (induction ts) (auto simp: kept_paths_def)

lemma no_analyzing_error_file_events:
  "EvLog lv (AnalyzingError q err) \<notin> set (file_events e p)"
  by (simp add: file_events_def split: sum.splits)

lemma no_analyzing_error_walk_events:
  "EvLog lv (AnalyzingError q err) \<notin> set (walk_events e x ts)"
  by (induction ts) (auto simp: no_analyzing_error_file_events)




section \<open>Properties\<close>

text \<open>
  C1. Whenever the metadata of a file can be read, \<^verbatim>\<open>analyze_file\<close> returns a record
  whose \<^verbatim>\<open>is_dormant\<close> entry is true exactly when both the last-access time and the
  last-modified time are strictly below the cutoff, and false for every other
  combination of the two timestamps.
\<close>

theorem analyze_file_is_dormant_iff:
  assumes "os_stat e file_path = Inr stat_info"
  shows "\<exists>result. analyze_file e file_path cutoff = ([EvStat file_path], Inr result)
           \<and> map_of result ''is_dormant''
               = Some (PyBool (st_atime stat_info < cutoff \<and> st_mtime stat_info < cutoff))
           \<and> map_of result ''last_access_time'' = Some (PyFloat (st_atime stat_info))
           \<and> map_of result ''last_modified_time'' = Some (PyFloat (st_mtime stat_info))"
  using assms by (simp add: analyze_file_def analyze_file_body_def Let_def)

theorem analyze_file_is_dormant_iff_witness:
  "os_stat demo_env ''ok/a''
     = Inr \<lparr>st_mode = 33188, st_atime = 1600000000, st_mtime = 1500000000\<rparr>
   \<and> os_stat demo_env ''ok/sub/b''
     = Inr \<lparr>st_mode = 33188, st_atime = 1699999000, st_mtime = 1500000000\<rparr>
   \<and> (\<exists>result. analyze_file demo_env ''ok/a'' 1668464000 = ([EvStat ''ok/a''], Inr result)
         \<and> map_of result ''is_dormant'' = Some (PyBool True))
   \<and> (\<exists>result. analyze_file demo_env ''ok/sub/b'' 1668464000 = ([EvStat ''ok/sub/b''], Inr result)
         \<and> map_of result ''is_dormant'' = Some (PyBool False))"
proof -
  have a: "os_stat demo_env ''ok/a''
             = Inr \<lparr>st_mode = 33188, st_atime = 1600000000, st_mtime = 1500000000\<rparr>"
    by (simp add: demo_env_def)
  have b: "os_stat demo_env ''ok/sub/b''
             = Inr \<lparr>st_mode = 33188, st_atime = 1699999000, st_mtime = 1500000000\<rparr>"
    by (simp add: demo_env_def)
  show ?thesis
    using a b analyze_file_is_dormant_iff[OF a, of 1668464000]
      analyze_file_is_dormant_iff[OF b, of 1668464000]
    by auto
qed

text \<open>
  C2. The claim asks that a file whose metadata cannot be read is left out of the
  results, so that N files with one failure give N - 1 results. The program does not do
  that: on the directory \<^verbatim>\<open>d\<close> of the concrete filesystem, whose two entries are
  \<^verbatim>\<open>a\<close> and the unreadable \<^verbatim>\<open>gone\<close>, the traversal returns two results, the second
  of them the empty dictionary; one error is logged by \<^verbatim>\<open>analyze_file\<close>, and the table
  of the results cannot be built, because the empty dictionary has no \<^verbatim>\<open>file_path\<close>.
\<close>

theorem stat_failure_leaves_empty_record:
  "walk_paths demo_env ''d'' = [''d/a'', ''d/gone'']
   \<and> os_stat demo_env ''d/gone'' = Inl FileNotFoundError
   \<and> analyze_permissions demo_env ''d'' 365 None
       = ([EvTime, EvIsFile ''d'', EvIsDir ''d'', EvListDir ''d'', EvStat ''d/a'', EvStat ''d/gone'',
           EvLog ERROR (FileStatsError ''d/gone'' FileNotFoundError)],
          Inr [[(''file_path'', PyStr ''d/a''), (''permissions'', PyStr ''-rw-r--r--''),
                (''last_access_time'', PyFloat 1600000000),
                (''last_modified_time'', PyFloat 1500000000),
                (''is_dormant'', PyBool True)],
               []])
   \<and> generate_rich_table demo_env
        [[(''file_path'', PyStr ''d/a''), (''permissions'', PyStr ''-rw-r--r--''),
          (''last_access_time'', PyFloat 1600000000),
          (''last_modified_time'', PyFloat 1500000000),
          (''is_dormant'', PyBool True)],
         []] = Inl (KeyError ''file_path'')"
  by (simp add: demo_env_def analyze_permissions_def analyze_file_def analyze_file_body_def
      join_def is_excluded_def walk_paths_def Let_def table_row_def bind_exn_def getitem_def
      py_ctime_def py_str_def)

text \<open>
  C3. A path that the exclusion test matches gets no result, whatever its timestamps:
  for a single-file root and for a directory root alike, no dictionary of the returned
  collection carries that path, and \<^verbatim>\<open>os.stat\<close> is never called on it.
\<close>

theorem excluded_path_has_no_result:
  assumes "is_excluded p x"
  shows "\<exists>ev results. analyze_permissions e path days x = (ev, Inr results)
           \<and> (\<forall>d \<in> set results. map_of d ''file_path'' \<noteq> Some (PyStr p))
           \<and> EvStat p \<notin> set ev"
proof -
  let ?c = "now e - of_int (days * 24 * 60 * 60)"
  have path: "map_of (file_result e ?c q) ''file_path'' \<noteq> Some (PyStr p)"
    if "\<not> is_excluded q x" for q
    using that assms file_result_path[of e ?c q "PyStr p"] by auto
  have fe: "EvStat p \<notin> set (file_events e q)" if "\<not> is_excluded q x" for q
    using that assms by (auto simp: file_events_def split: sum.splits)
  have we: "EvStat p \<notin> set (walk_events e x ts)" for ts
    using assms kept_paths_not_excluded[of p x]
    by (auto simp: in_stat_calls stat_calls_walk_events)
  show ?thesis
    unfolding analyze_permissions_closed Let_def
    using path fe we kept_paths_not_excluded[of _ x] by auto
qed

theorem excluded_path_has_no_result_witness:
  "is_excluded ''ok/a'' (Some (\<lambda>p. p = ''ok/a''))
   \<and> EvStat ''ok/a'' \<notin> set (fst (analyze_permissions demo_env ''ok'' 365 (Some (\<lambda>p. p = ''ok/a''))))"
proof -
  have h: "is_excluded ''ok/a'' (Some (\<lambda>p. p = ''ok/a''))" by (simp add: is_excluded_def)
  show ?thesis
    using h excluded_path_has_no_result[OF h, of demo_env "''ok''" 365] by auto
qed

text \<open>
  C4. The claim says that a run with \<^verbatim>\<open>days\<close> zero or negative is rejected before any
  filesystem read. The program checks the path first, so one read does happen: the
  existence probe of the root path.
\<close>

theorem nonpositive_days_still_probes_path:
  "main demo_env (demo_args ''ok'' 0 None) = [EvExists ''ok'', EvLog ERROR DaysNotPositive]
   \<and> fs_reads (main demo_env (demo_args ''ok'' 0 None)) \<noteq> []"
  by (simp add: main_def demo_args_def demo_env_def fs_reads_def)

text \<open>
  C4, as amended. A run with \<^verbatim>\<open>days\<close> zero or negative is rejected before any
  traversal: the run consists of the existence probe of the root path and one error
  record, and nothing else (no clock read, no exclude file, no directory listing, no
  \<^verbatim>\<open>os.stat\<close>, no report).
\<close>

theorem nonpositive_days_rejected_after_path_check:
  assumes "arg_days a \<le> 0"
  shows "main e a = [EvExists (arg_path a),
                     EvLog ERROR (if path_exists e (arg_path a) then DaysNotPositive
                                  else PathDoesNotExist (arg_path a))]"
  using assms by (simp add: main_def)

theorem nonpositive_days_rejected_after_path_check_witness:
  "arg_days (demo_args ''ok'' 0 None) \<le> 0
   \<and> main demo_env (demo_args ''ok'' 0 None) = [EvExists ''ok'', EvLog ERROR DaysNotPositive]"
proof -
  have h: "arg_days (demo_args ''ok'' 0 None) \<le> 0" by (simp add: demo_args_def)
  show ?thesis
    using h nonpositive_days_rejected_after_path_check[OF h, of demo_env]
    by (simp add: demo_args_def demo_env_def)
qed

text \<open>
  C5. For a directory root whose enumerated files are all kept by the exclusion test
  and all readable, the traversal returns one result per enumerated file, in
  enumeration order, each carrying the path of its file, and calls \<^verbatim>\<open>os.stat\<close> exactly
  once on each of them: N files give N results, none left out and none visited twice.
\<close>

theorem directory_walk_visits_each_file_once:
  assumes "\<not> isfile e path" and "isdir e path"
    and "\<forall>p \<in> set (walk_paths e path). \<not> is_excluded p x"
    and "\<forall>p \<in> set (walk_paths e path). \<exists>st. os_stat e p = Inr st"
  shows "\<exists>ev results. analyze_permissions e path days x = (ev, Inr results)
           \<and> length results = length (walk_paths e path)
           \<and> map (\<lambda>d. map_of d ''file_path'') results
               = map (\<lambda>p. Some (PyStr p)) (walk_paths e path)
           \<and> stat_calls ev = walk_paths e path"
proof -
  let ?c = "now e - of_int (days * 24 * 60 * 60)"
  have ex: "\<forall>p \<in> set (concat (map (\<lambda>(r, ds, fs). map (join r) fs) (walk e path))).
              \<not> is_excluded p x"
    using assms(3) by (simp add: walk_paths_def)
  have paths: "map (\<lambda>d. map_of d ''file_path'') (map (file_result e ?c) ps)
                 = map (\<lambda>p. Some (PyStr p)) ps"
    if "\<forall>p \<in> set ps. \<exists>st. os_stat e p = Inr st" for ps
    using that by (induction ps) (auto simp: file_result_ok)
  show ?thesis
    unfolding analyze_permissions_closed Let_def
    using assms(1,2) paths[OF assms(4)]
    by (simp add: concat_kept_all[OF ex] stat_calls_walk_events walk_paths_def)
qed

theorem directory_walk_visits_each_file_once_witness:
  "\<not> isfile demo_env ''ok'' \<and> isdir demo_env ''ok''
   \<and> walk_paths demo_env ''ok'' = [''ok/a'', ''ok/sub/b'']
   \<and> (\<exists>ev results. analyze_permissions demo_env ''ok'' 365 None = (ev, Inr results)
         \<and> length results = 2 \<and> stat_calls ev = [''ok/a'', ''ok/sub/b''])"
proof -
  have f: "\<not> isfile demo_env ''ok''" and d: "isdir demo_env ''ok''"
    by (simp_all add: demo_env_def)
  have w: "walk_paths demo_env ''ok'' = [''ok/a'', ''ok/sub/b'']"
    by (simp add: walk_paths_def demo_env_def join_def)
  have x: "\<forall>p \<in> set (walk_paths demo_env ''ok''). \<not> is_excluded p None"
    by (simp add: is_excluded_def)
  have s: "\<forall>p \<in> set (walk_paths demo_env ''ok''). \<exists>st. os_stat demo_env p = Inr st"
    unfolding w by (simp add: demo_env_def)
  show ?thesis
    using f d w directory_walk_visits_each_file_once[OF f d x s, of 365] by auto
qed



text \<open>
  C7. For a root that is neither a regular file nor a directory, the traversal logs one
  error record naming the path and returns the empty collection; it lists nothing and
  reads no metadata.
\<close>

theorem unsupported_root_logged_and_empty:
  assumes "\<not> isfile e path" and "\<not> isdir e path"
  shows "analyze_permissions e path days x
           = ([EvTime, EvIsFile path, EvIsDir path, EvLog ERROR (NotValidPath path)], Inr [])"
  using assms by (simp add: analyze_permissions_def)

theorem unsupported_root_logged_and_empty_witness:
  "\<not> isfile demo_env ''fifo'' \<and> \<not> isdir demo_env ''fifo''
   \<and> analyze_permissions demo_env ''fifo'' 365 None
       = ([EvTime, EvIsFile ''fifo'', EvIsDir ''fifo'', EvLog ERROR (NotValidPath ''fifo'')], Inr [])"
proof -
  have f: "\<not> isfile demo_env ''fifo''" and d: "\<not> isdir demo_env ''fifo''"
    by (simp_all add: demo_env_def)
  show ?thesis using f d unsupported_root_logged_and_empty[OF f d] by simp
qed

text \<open>
  C8. When the exclude file cannot be read, \<^verbatim>\<open>load_exclude_patterns\<close> returns
  \<^verbatim>\<open>None\<close> after logging one record, a warning or an error; the run then goes on as a
  run without an exclude file does, apart from the attempt to read the file and that
  record; and with no matcher the exclusion test is false for every path.
\<close>

theorem unreadable_exclude_file_means_no_exclusions:
  assumes "read_lines e f = Inl err"
  shows "\<exists>lv m. load_exclude_patterns e f = ([EvOpenRead f, EvLog lv m], None)
           \<and> (lv = WARNING \<or> lv = ERROR)
           \<and> (path_exists e (arg_path a) \<and> 0 < arg_days a \<and> arg_exclude a = Some f \<and> f \<noteq> []
                \<longrightarrow> main e a = EvExists (arg_path a) # EvOpenRead f # EvLog lv m
                                   # tl (main e (a\<lparr>arg_exclude := None\<rparr>)))
           \<and> (\<forall>p. is_excluded p None = False)"
proof -
  have "\<exists>lv m. load_exclude_patterns e f = ([EvOpenRead f, EvLog lv m], None)
           \<and> (lv = WARNING \<or> lv = ERROR)"
    using assms by (auto simp: load_exclude_patterns_def split: exn.splits oserror.splits)
  then obtain lv m where l: "load_exclude_patterns e f = ([EvOpenRead f, EvLog lv m], None)"
    and lv: "lv = WARNING \<or> lv = ERROR" by blast
  have "main e a = EvExists (arg_path a) # EvOpenRead f # EvLog lv m
                     # tl (main e (a\<lparr>arg_exclude := None\<rparr>))"
    if "path_exists e (arg_path a)" "0 < arg_days a" "arg_exclude a = Some f" "f \<noteq> []"
    using that l by (simp add: main_def Let_def split: prod.splits sum.splits)
  with l lv show ?thesis by (auto simp: is_excluded_def)
qed

theorem unreadable_exclude_file_means_no_exclusions_witness:
  "read_lines demo_env ''nope'' = Inl (OSError FileNotFoundError)
   \<and> snd (load_exclude_patterns demo_env ''nope'') = None
   \<and> (\<exists>lv m. main demo_env (demo_args ''ok'' 365 (Some ''nope''))
         = EvExists ''ok'' # EvOpenRead ''nope'' # EvLog lv m
             # tl (main demo_env (demo_args ''ok'' 365 None)))"
proof -
  have h: "read_lines demo_env ''nope'' = Inl (OSError FileNotFoundError)"
    by (simp add: demo_env_def)
  have p: "path_exists demo_env ''ok''" by (simp add: demo_env_def)
  show ?thesis
    using h p unreadable_exclude_file_means_no_exclusions[OF h,
        of "demo_args ''ok'' 365 (Some ''nope'')"]
    by (auto simp: demo_args_def)
qed



text \<open>
  C10. \<^verbatim>\<open>analyze_file\<close> always returns a dictionary and never raises; when \<^verbatim>\<open>os.stat\<close>
  fails it logs the failure and returns the empty dictionary. Hence the record that the
  \<^verbatim>\<open>except OSError\<close> branch of the directory loop would log never appears in any run,
  and for a single-file root whose \<^verbatim>\<open>os.stat\<close> fails the result collection is the
  empty dictionary alone.
\<close>

theorem analyze_file_swallows_oserror:
  "(\<exists>ev d. analyze_file e p c = (ev, Inr d))
   \<and> (\<forall>err. os_stat e p = Inl err \<longrightarrow>
         analyze_file e p c = ([EvStat p, EvLog ERROR (FileStatsError p err)], Inr []))
   \<and> (\<forall>lv q err. EvLog lv (AnalyzingError q err) \<notin> set (fst (analyze_permissions e path days x)))
   \<and> (\<forall>err. isfile e path \<and> \<not> is_excluded path x \<and> os_stat e path = Inl err \<longrightarrow>
         snd (analyze_permissions e path days x) = Inr [[]])"
proof -
  have 1: "\<exists>ev d. analyze_file e p c = (ev, Inr d)" by (simp add: analyze_file_closed)
  have 2: "analyze_file e p c = ([EvStat p, EvLog ERROR (FileStatsError p err)], Inr [])"
    if "os_stat e p = Inl err" for err
    using that by (simp add: analyze_file_def analyze_file_body_def)
  have 3: "EvLog lv (AnalyzingError q err) \<notin> set (fst (analyze_permissions e path days x))"
    for lv q err
    by (simp add: analyze_permissions_closed Let_def no_analyzing_error_walk_events
        no_analyzing_error_file_events)
  have 4: "snd (analyze_permissions e path days x) = Inr [[]]"
    if "isfile e path" "\<not> is_excluded path x" "os_stat e path = Inl err" for err
    using that by (simp add: analyze_permissions_closed Let_def file_result_def analyze_file_body_def)
  from 1 2 3 4 show ?thesis by blast
qed

theorem analyze_file_swallows_oserror_witness:
  "os_stat demo_env ''gone'' = Inl FileNotFoundError \<and> isfile demo_env ''gone''
   \<and> analyze_file demo_env ''gone'' 0
       = ([EvStat ''gone'', EvLog ERROR (FileStatsError ''gone'' FileNotFoundError)], Inr [])
   \<and> snd (analyze_permissions demo_env ''gone'' 365 None) = Inr [[]]"
proof -
  have s: "os_stat demo_env ''gone'' = Inl FileNotFoundError" and f: "isfile demo_env ''gone''"
    by (simp_all add: demo_env_def)
  have x: "\<not> is_excluded ''gone'' None" by (simp add: is_excluded_def)
  show ?thesis
    using s f x analyze_file_swallows_oserror[of demo_env "''gone''" 0 "''gone''" 365 None]
    by blast
qed

end
